theory Spec2Isabelle
  imports Main "HOL-Library.Sublist"
begin

section \<open>Strings\<close>

text \<open>
  A JavaScript string is modelled as a \<^typ>\<open>string\<close>: the list of its code units, of
  which the model has the first 256. \<open>String.prototype.trim\<close> removes white space and
  line terminators from both ends; among these code units they are TAB, LF, VT, FF, CR,
  SP and NBSP.
\<close>

definition js_whitespace :: "char \<Rightarrow> bool" where
  "js_whitespace c \<longleftrightarrow> (of_char c :: nat) \<in> {9, 10, 11, 12, 13, 32, 160}"

definition trim :: "string \<Rightarrow> string" where
  "trim s = rev (dropWhile js_whitespace (rev (dropWhile js_whitespace s)))"

definition startsWith :: "string \<Rightarrow> string \<Rightarrow> bool" where
  "startsWith s p \<longleftrightarrow> take (length p) s = p"

text \<open>
  \<open>s.replace(/\/$/, '')\<close>: the pattern has no flag, so \<open>$\<close> is the end of the input and
  at most one slash, the last code unit, is removed.
\<close>

definition strip_trailing_slash :: "string \<Rightarrow> string" where
  "strip_trailing_slash s = (if s \<noteq> [] \<and> last s = CHR ''/'' then butlast s else s)"

section \<open>Values decoded from JSON\<close>

text \<open>
  What \<open>response.json()\<close> resolves to. A number is carried as its canonical rendering
  (what \<open>String(n)\<close> gives), which identifies it: two numbers decoded from JSON are
  \<open>===\<close> exactly when their renderings are equal, and \<open>0\<close> is the only falsy one. An
  object is the list of its members in the order of the text; a later member with the
  same key overrides an earlier one. Reading a property may also give \<open>undefined\<close>.
\<close>

datatype json =
    JNull
  | JBool bool
  | JNum string
  | JStr string
  | JArr "json list"
  | JObj "(string \<times> json) list"

datatype jsval = Undefined | Val json

text \<open>The errors that \<open>addFriend\<close> and \<open>checkHealth\<close> catch.\<close>

datatype error =
    NetworkError
  | FetchProfileFailed string nat
  | SyntaxError
  | TypeError
  | SelfFriend
  | AddFriendFailed string

text \<open>
  \<open>x.k\<close> for the property names the program reads (\<open>id\<close>, \<open>name\<close>, \<open>detail\<close>,
  \<open>instance_url\<close>), none of which is inherited from a prototype: on \<open>null\<close> a TypeError,
  on an object its own member or \<open>undefined\<close>, on anything else \<open>undefined\<close>.
\<close>

fun get_prop :: "json \<Rightarrow> string \<Rightarrow> error + jsval" where
  "get_prop JNull k = Inl TypeError"
| "get_prop (JObj kvs) k =
     Inr (case map_of (rev kvs) k of None \<Rightarrow> Undefined | Some v \<Rightarrow> Val v)"
| "get_prop _ k = Inr Undefined"

text \<open>
  \<open>a === b\<close> for two values that come from two different decodings: scalars are compared
  by value, and two objects or arrays are never the same object.
\<close>

fun strict_eq :: "jsval \<Rightarrow> jsval \<Rightarrow> bool" where
  "strict_eq Undefined Undefined = True"
| "strict_eq (Val JNull) (Val JNull) = True"
| "strict_eq (Val (JBool a)) (Val (JBool b)) = (a = b)"
| "strict_eq (Val (JNum a)) (Val (JNum b)) = (a = b)"
| "strict_eq (Val (JStr a)) (Val (JStr b)) = (a = b)"
| "strict_eq _ _ = False"

fun truthy :: "jsval \<Rightarrow> bool" where
  "truthy Undefined = False"
| "truthy (Val JNull) = False"
| "truthy (Val (JBool b)) = b"
| "truthy (Val (JNum n)) = (n \<noteq> ''0'')"
| "truthy (Val (JStr s)) = (s \<noteq> [])"
| "truthy _ = True"

fun is_scalar :: "jsval \<Rightarrow> bool" where
  "is_scalar (Val (JArr xs)) = False"
| "is_scalar (Val (JObj kvs)) = False"
| "is_scalar _ = True"

text \<open>
  The conversion of a value to a string, as a template literal, \<open>new Error(message)\<close>
  and a property key \<open>statusMap[key]\<close> make it. A string is itself. An array is joined
  with commas, \<open>null\<close> elements giving the empty string. An object is
  \<open>[object Object]\<close>, unless it has a member \<open>toString\<close> of its own: that member is not
  callable, and the conversion throws.
\<close>

fun join :: "(error + string) list \<Rightarrow> error + string" where
  "join [] = Inr []"
| "join [x] = x"
| "join (x # y # ys) =
     (case x of
        Inl e \<Rightarrow> Inl e
      | Inr a \<Rightarrow> (case join (y # ys) of Inl e \<Rightarrow> Inl e | Inr b \<Rightarrow> Inr (a @ '','' @ b)))"

fun toString :: "json \<Rightarrow> error + string" where
  "toString JNull = Inr ''null''"
| "toString (JBool b) = Inr (if b then ''true'' else ''false'')"
| "toString (JNum n) = Inr n"
| "toString (JStr s) = Inr s"
| "toString (JArr xs) = join (map (\<lambda>x. if x = JNull then Inr [] else toString x) xs)"
| "toString (JObj kvs) =
     (if ''toString'' \<in> fst ` set kvs then Inl TypeError else Inr ''[object Object]'')"

fun string_of :: "jsval \<Rightarrow> error + string" where
  "string_of Undefined = Inr ''undefined''"
| "string_of (Val v) = toString v"

section \<open>The network\<close>

text \<open>
  \<open>fetch\<close> either rejects or resolves to a response with a status and a body, which
  \<open>response.json()\<close> decodes or fails to decode (\<open>None\<close>). \<open>response.ok\<close> is a status
  from 200 to 299. A request is recorded with the object handed to \<open>JSON.stringify\<close>
  as its body.
\<close>

record candidate =
  unique_id :: jsval
  dns_name :: string
  name :: jsval

datatype request =
    GET string
  | POST_friends candidate
  | POST_health_check "string list"

datatype response = Rejected | Response nat "json option"

definition ok :: "nat \<Rightarrow> bool" where
  "ok status \<longleftrightarrow> 200 \<le> status \<and> status \<le> 299"

section \<open>The platform's URL parser\<close>











text \<open>The decimal digits of a number.\<close>

fun decimal :: "nat \<Rightarrow> string" where
  "decimal n =
     (if n < 10 then [char_of (48 + n)] else decimal (n div 10) @ [char_of (48 + n mod 10)])"

declare decimal.simps [simp del]




























section \<open>App.jsx: addFriend\<close>

record app =
  animal :: json
  friends :: "json list"
  friendUrl :: string
  addingFriend :: bool
  friendError :: "error option"
  friendSuccess :: "string option"

text \<open>Step 1 of \<open>addFriend\<close>: the base URL of the friend's instance and its profile URL.\<close>

definition friendInstanceUrl :: "string \<Rightarrow> string" where
  "friendInstanceUrl url =
     (let u = trim url;
          u = (if \<not> startsWith u ''http://'' \<and> \<not> startsWith u ''https://''
               then ''https://'' @ u else u)
      in strip_trailing_slash u)"

definition friendMeUrl :: "string \<Rightarrow> string" where
  "friendMeUrl url = friendInstanceUrl url @ ''/api/me''"

text \<open>
  The profile fetch: \<open>fetch(friendMeUrl)\<close>, the check of \<open>friendResponse.ok\<close> and
  \<open>friendResponse.json()\<close>. \<open>net\<close> answers a request.
\<close>

definition fetch_friend_profile :: "(request \<Rightarrow> response) \<Rightarrow> string \<Rightarrow> error + json" where
  "fetch_friend_profile net url =
     (case net (GET (friendMeUrl url)) of
        Rejected \<Rightarrow> Inl NetworkError
      | Response status body \<Rightarrow>
          if \<not> ok status then Inl (FetchProfileFailed (friendMeUrl url) status)
          else (case body of None \<Rightarrow> Inl SyntaxError | Some friendData \<Rightarrow> Inr friendData))"

text \<open>
  From the decoded profile to the body of the add request: the check against
  \<open>animal.id\<close>, then the object literal, whose members are evaluated in order.
  \<open>hostname\<close> is the platform's \<open>new URL(u).hostname\<close>, \<open>None\<close> where the constructor
  throws.
\<close>

definition friend_candidate ::
  "(string \<Rightarrow> string option) \<Rightarrow> app \<Rightarrow> json \<Rightarrow> error + candidate" where
  "friend_candidate hostname s friendData =
     (case get_prop friendData ''id'' of
        Inl e \<Rightarrow> Inl e
      | Inr friend_id \<Rightarrow>
          (case get_prop (animal s) ''id'' of
             Inl e \<Rightarrow> Inl e
           | Inr animal_id \<Rightarrow>
               if strict_eq friend_id animal_id then Inl SelfFriend
               else (case hostname (friendInstanceUrl (friendUrl s)) of
                  None \<Rightarrow> Inl TypeError
                | Some h \<Rightarrow>
                    (case get_prop friendData ''name'' of
                       Inl e \<Rightarrow> Inl e
                     | Inr friend_name \<Rightarrow>
                         Inr \<lparr>unique_id = friend_id, dns_name = h, name = friend_name\<rparr>))))"

text \<open>
  The add request \<open>POST /api/friends\<close> and the reading of its answer: the error is
  \<open>new Error(errorData.detail || 'Failed to add friend to our backend')\<close>, whose message
  is converted to a string, which may throw in its turn.
\<close>

definition post_friend :: "(request \<Rightarrow> response) \<Rightarrow> candidate \<Rightarrow> error + json" where
  "post_friend net c =
     (case net (POST_friends c) of
        Rejected \<Rightarrow> Inl NetworkError
      | Response status body \<Rightarrow>
          if \<not> ok status then
            (case body of
               None \<Rightarrow> Inl SyntaxError
             | Some errorData \<Rightarrow>
                 (case get_prop errorData ''detail'' of
                    Inl e \<Rightarrow> Inl e
                  | Inr d \<Rightarrow>
                      (case string_of
                          (if truthy d then d
                           else Val (JStr ''Failed to add friend to our backend'')) of
                         Inl e \<Rightarrow> Inl e
                       | Inr message \<Rightarrow> Inl (AddFriendFailed message))))
          else (case body of None \<Rightarrow> Inl SyntaxError | Some newFriend \<Rightarrow> Inr newFriend))"

text \<open>
  The body of the \<open>try\<close> block. It returns the requests issued, in order, and either the
  error thrown or the new friend record with the name shown in the success message.
\<close>

definition addFriend_try ::
  "(request \<Rightarrow> response) \<Rightarrow> (string \<Rightarrow> string option) \<Rightarrow> app
     \<Rightarrow> request list \<times> (error + json \<times> jsval)" where
  "addFriend_try net hostname s =
     (case fetch_friend_profile net (friendUrl s) of
        Inl e \<Rightarrow> ([GET (friendMeUrl (friendUrl s))], Inl e)
      | Inr friendData \<Rightarrow>
          (case friend_candidate hostname s friendData of
             Inl e \<Rightarrow> ([GET (friendMeUrl (friendUrl s))], Inl e)
           | Inr c \<Rightarrow>
               ([GET (friendMeUrl (friendUrl s)), POST_friends c],
                case post_friend net c of
                  Inl e \<Rightarrow> Inl e
                | Inr newFriend \<Rightarrow> Inr (newFriend, name c))))"

text \<open>
  \<open>addFriend\<close> with its \<open>catch\<close> and \<open>finally\<close>: the state after the handler has run to
  its end, and the requests it issued. Step 3 sets \<open>friends\<close> and \<open>friendUrl\<close> and then
  builds the success message, a template literal that converts \<open>friendData.name\<close> to a
  string; when that conversion throws, the two setters have been called and the error
  is caught like any other. (The timeout that clears the success message three seconds
  later is not part of the model.)
\<close>

definition addFriend ::
  "(request \<Rightarrow> response) \<Rightarrow> (string \<Rightarrow> string option) \<Rightarrow> app \<Rightarrow> app \<times> request list" where
  "addFriend net hostname s =
     (let s1 = s\<lparr>addingFriend := True, friendError := None, friendSuccess := None\<rparr>;
          (t, r) = addFriend_try net hostname s;
          s2 = (case r of
                  Inr (newFriend, friend_name) \<Rightarrow>
                    (case string_of friend_name of
                       Inl e \<Rightarrow>
                         s1\<lparr>friends := friends s @ [newFriend], friendUrl := [],
                            friendError := Some e\<rparr>
                     | Inr shown \<Rightarrow>
                         s1\<lparr>friends := friends s @ [newFriend], friendUrl := [],
                            friendSuccess :=
                              Some (''Successfully added '' @ shown @ '' as a friend!'')\<rparr>)
                | Inl e \<Rightarrow> s1\<lparr>friendError := Some e\<rparr>)
      in (s2\<lparr>addingFriend := False\<rparr>, t))"

section \<open>The Friend Registry\<close>

text \<open>
  Modelled from the spec: the Friend Registry and its endpoint \<open>POST /api/friends\<close> are
  code of the backend, which is not among the sources. The specification gives the
  registry's \<open>add\<close>: it fails with \<open>DuplicateFriend\<close> if the \<open>unique_id\<close> is already
  present, and otherwise stamps \<open>connected_at\<close> with the current time, persists the new
  record and returns it; the list is in insertion order.
\<close>

record friend = candidate +
  connected_at :: nat

datatype registry_error = DuplicateFriend

definition registry_add ::
  "nat \<Rightarrow> candidate \<Rightarrow> friend list \<Rightarrow> registry_error + friend \<times> friend list" where
  "registry_add now c registry =
     (if list_ex (\<lambda>f. unique_id f = unique_id c) registry then Inl DuplicateFriend
      else (let f = \<lparr>unique_id = unique_id c, dns_name = dns_name c, name = name c,
                      connected_at = now\<rparr>
            in Inr (f, registry @ [f])))"

text \<open>
  Modelled from the spec: the endpoint invokes \<open>add\<close>; success returns the created
  record as JSON, failure a structured error with a \<open>detail\<close> and a non-success status
  that tells a duplicate from malformed input. Which input counts as malformed the
  specification leaves open: it is the parameter \<open>malformed\<close>. The two statuses and
  the texts of the details are chosen here. A member whose value is \<open>undefined\<close> is
  not in a JSON text.
\<close>

definition json_member :: "string \<Rightarrow> jsval \<Rightarrow> (string \<times> json) list" where
  "json_member k v = (case v of Undefined \<Rightarrow> [] | Val j \<Rightarrow> [(k, j)])"

definition friend_json :: "friend \<Rightarrow> json" where
  "friend_json f =
     JObj (json_member ''unique_id'' (unique_id f) @ [(''dns_name'', JStr (dns_name f))]
           @ json_member ''name'' (name f)
           @ [(''connected_at'', JNum (decimal (connected_at f)))])"

definition post_friends_endpoint ::
  "(candidate \<Rightarrow> bool) \<Rightarrow> nat \<Rightarrow> candidate \<Rightarrow> friend list \<Rightarrow> response \<times> friend list" where
  "post_friends_endpoint malformed now c registry =
     (if malformed c
      then (Response 422 (Some (JObj [(''detail'', JStr ''Malformed friend'')])), registry)
      else (case registry_add now c registry of
              Inl DuplicateFriend \<Rightarrow>
                (Response 409 (Some (JObj [(''detail'', JStr ''Friend already exists'')])),
                 registry)
            | Inr (f, registry') \<Rightarrow> (Response 200 (Some (friend_json f)), registry')))"

text \<open>
  Modelled from the spec: a network whose add requests are answered by that endpoint on
  a given registry, and the registry after a sequence of requests. (\<open>addFriend\<close> sends
  one add request at most, so the registry that answers it is the one before the
  handler runs.)
\<close>

definition served ::
  "(request \<Rightarrow> response) \<Rightarrow> (candidate \<Rightarrow> bool) \<Rightarrow> nat \<Rightarrow> friend list
     \<Rightarrow> request \<Rightarrow> response" where
  "served net malformed now registry q =
     (case q of
        POST_friends c \<Rightarrow> fst (post_friends_endpoint malformed now c registry)
      | GET u \<Rightarrow> net q
      | POST_health_check urls \<Rightarrow> net q)"


section \<open>Monitoring\<close>

definition defaultInstances :: "string list" where
  "defaultInstances =
     [''https://viscon.monomorphic.party'',
      ''https://dj-viscon-workshop-0.vsos.ethz.ch'',
      ''https://dj-viscon-workshop-1.vsos.ethz.ch'',
      ''https://dj-viscon-workshop-2.vsos.ethz.ch'',
      ''https://dj-viscon-workshop-3.vsos.ethz.ch'',
      ''https://dj-viscon-workshop-4.vsos.ethz.ch'',
      ''https://dj-viscon-workshop-5.vsos.ethz.ch'',
      ''https://dj-viscon-workshop-6.vsos.ethz.ch'',
      ''https://dj-viscon-workshop-7.vsos.ethz.ch'',
      ''https://dj-viscon-workshop-8.vsos.ethz.ch'',
      ''https://dj-viscon-workshop-9.vsos.ethz.ch'',
      ''https://dj-viscon-workshop-10.vsos.ethz.ch'',
      ''https://dj-viscon-workshop-11.vsos.ethz.ch'',
      ''https://dj-viscon-workshop-12.vsos.ethz.ch'',
      ''https://dj-viscon-workshop-13.vsos.ethz.ch'',
      ''https://dj-viscon-workshop-14.vsos.ethz.ch'']"

text \<open>
  The five state cells of the component, and what the runtime holds for it: the interval
  timer of the effect (\<open>None\<close> when there is none, else its period in milliseconds) and
  the health-check requests that have been sent and not yet answered, oldest first.
  The status map is a plain object used as a dictionary; the model has the members of
  its own, which are the ones that \<open>{...healthStatuses}\<close> copies and \<open>delete\<close> removes,
  and not what it inherits from its prototype.
\<close>

record monitoring =
  instances :: "string list"
  instanceInput :: string
  healthStatuses :: "string \<rightharpoonup> json"
  isChecking :: bool
  lastChecked :: "nat option"
  interval :: "nat option"
  pending :: "request list"

subsection \<open>checkHealth\<close>

text \<open>
  \<open>checkHealth\<close> up to its \<open>await fetch\<close>: nothing for an empty list, else the flag is
  set and the request leaves with the current list as \<open>instance_urls\<close>.
\<close>

definition checkHealth :: "monitoring \<Rightarrow> monitoring" where
  "checkHealth s =
     (if length (instances s) = 0 then s
      else s\<lparr>isChecking := True, pending := pending s @ [POST_health_check (instances s)]\<rparr>)"

text \<open>
  \<open>statusMap[key] = status\<close> on the plain object \<open>statusMap\<close>, given by the members of
  its own and by its prototype, \<open>Object.prototype\<close> at first. The assignment makes or
  updates a member of the object's own, with one exception: for the key \<open>__proto__\<close>,
  when the object has no such member and none is found on the way up to
  \<open>Object.prototype\<close>, the setter found there makes the value the prototype of the
  object (if the value is an object or \<open>null\<close>) and adds no member.
\<close>

datatype prototype = Object_prototype | No_prototype | Prototype json

fun reaches_setter :: "prototype \<Rightarrow> bool" where
  "reaches_setter Object_prototype = True"
| "reaches_setter No_prototype = False"
| "reaches_setter (Prototype (JObj kvs)) = (''__proto__'' \<notin> fst ` set kvs)"
| "reaches_setter (Prototype v) = True"

fun set_prototype :: "json \<Rightarrow> prototype \<Rightarrow> prototype" where
  "set_prototype (JObj kvs) p = Prototype (JObj kvs)"
| "set_prototype (JArr xs) p = Prototype (JArr xs)"
| "set_prototype JNull p = No_prototype"
| "set_prototype v p = p"

definition assign_member ::
  "string \<Rightarrow> json \<Rightarrow> (string \<rightharpoonup> json) \<times> prototype \<Rightarrow> (string \<rightharpoonup> json) \<times> prototype" where
  "assign_member k v m =
     (case m of
        (own, proto) \<Rightarrow>
          if k = ''__proto__'' \<and> own k = None \<and> reaches_setter proto
          then (own, set_prototype v proto)
          else (own(k \<mapsto> v), proto))"

text \<open>\<open>data.forEach((status) => { statusMap[status.instance_url] = status })\<close>\<close>

fun forEach_assign ::
  "json list \<Rightarrow> (string \<rightharpoonup> json) \<times> prototype
     \<Rightarrow> error + (string \<rightharpoonup> json) \<times> prototype" where
  "forEach_assign [] statusMap = Inr statusMap"
| "forEach_assign (status # rest) statusMap =
     (case get_prop status ''instance_url'' of
        Inl e \<Rightarrow> Inl e
      | Inr u \<Rightarrow>
          (case string_of u of
             Inl e \<Rightarrow> Inl e
           | Inr k \<Rightarrow> forEach_assign rest (assign_member k status statusMap)))"

text \<open>The loop on a new object with the given members; the result are its members.\<close>

definition forEach_status ::
  "json list \<Rightarrow> (string \<rightharpoonup> json) \<Rightarrow> error + (string \<rightharpoonup> json)" where
  "forEach_status xs statusMap =
     (case forEach_assign xs (statusMap, Object_prototype) of
        Inl e \<Rightarrow> Inl e
      | Inr (own, proto) \<Rightarrow> Inr own)"

text \<open>
  The rest of the \<open>try\<close> block, once the request is answered: an error thrown, an early
  return (\<open>Inr None\<close>) or the new status map. Only an array has \<open>forEach\<close>.
\<close>

definition checkHealth_try :: "response \<Rightarrow> error + (string \<rightharpoonup> json) option" where
  "checkHealth_try r =
     (case r of
        Rejected \<Rightarrow> Inl NetworkError
      | Response status body \<Rightarrow>
          if \<not> ok status then Inr None
          else (case body of
             None \<Rightarrow> Inl SyntaxError
           | Some data \<Rightarrow>
               (case data of
                  JArr xs \<Rightarrow>
                    (case forEach_status xs Map.empty of
                       Inl e \<Rightarrow> Inl e
                     | Inr statusMap \<Rightarrow> Inr (Some statusMap))
                | _ \<Rightarrow> Inl TypeError)))"

text \<open>
  \<open>checkHealth\<close> from the answer on, with its \<open>catch\<close> (which only logs) and its
  \<open>finally\<close>. \<open>now\<close> is the clock read by \<open>new Date()\<close>.
\<close>

definition checkHealth_resolved :: "nat \<Rightarrow> response \<Rightarrow> monitoring \<Rightarrow> monitoring" where
  "checkHealth_resolved now r s =
     (let s' = (case checkHealth_try r of
                  Inr (Some statusMap) \<Rightarrow> s\<lparr>healthStatuses := statusMap, lastChecked := Some now\<rparr>
                | Inr None \<Rightarrow> s
                | Inl e \<Rightarrow> s)
      in s'\<lparr>isChecking := False\<rparr>)"

subsection \<open>The polling effect\<close>

text \<open>
  The effect depends on \<open>instances\<close>. Its body returns at once for an empty list; else it
  checks, and sets the interval up. Its cleanup clears the interval.
\<close>

definition clearInterval :: "monitoring \<Rightarrow> monitoring" where
  "clearInterval s = s\<lparr>interval := None\<rparr>"

definition useEffect :: "monitoring \<Rightarrow> monitoring" where
  "useEffect s =
     (if length (instances s) = 0 then s
      else (checkHealth s)\<lparr>interval := Some 5000\<rparr>)"

subsection \<open>The handlers\<close>

text \<open>A handler is the list of the state setters it calls, in order.\<close>

datatype setter =
    setInstances "string list"
  | setInstanceInput string
  | setHealthStatuses "string \<rightharpoonup> json"

definition addInstance :: "monitoring \<Rightarrow> setter list" where
  "addInstance s =
     (let trimmedUrl = trim (instanceInput s) in
      if trimmedUrl = [] then []
      else if trimmedUrl \<in> set (instances s) then []
      else [setInstances (instances s @ [trimmedUrl]), setInstanceInput []])"

definition removeInstance :: "string \<Rightarrow> monitoring \<Rightarrow> setter list" where
  "removeInstance url s =
     [setInstances (filter (\<lambda>instance. instance \<noteq> url) (instances s)),
      setHealthStatuses ((healthStatuses s)(url := None))]"

fun apply_setter :: "monitoring \<Rightarrow> setter \<Rightarrow> monitoring" where
  "apply_setter s (setInstances v) = s\<lparr>instances := v\<rparr>"
| "apply_setter s (setInstanceInput v) = s\<lparr>instanceInput := v\<rparr>"
| "apply_setter s (setHealthStatuses v) = s\<lparr>healthStatuses := v\<rparr>"

fun is_setInstances :: "setter \<Rightarrow> bool" where
  "is_setInstances (setInstances v) = True"
| "is_setInstances _ = False"

text \<open>
  What the runtime does with the setters of one handler: the state is updated, the
  component renders again, and when \<open>instances\<close> has been set (always to a new array,
  which is never the same object as the old one) the effect runs again, its cleanup
  first.
\<close>

definition dispatch :: "setter list \<Rightarrow> monitoring \<Rightarrow> monitoring" where
  "dispatch setters s =
     (let s' = foldl apply_setter s setters in
      if list_ex is_setInstances setters then useEffect (clearInterval s') else s')"

subsection \<open>The session\<close>

text \<open>
  The events of a mounted component: typing into the input, submitting the form,
  clicking Remove, the interval firing, and the answer to the \<open>i\<close>-th pending request
  arriving at time \<open>now\<close>.
\<close>

datatype event =
    Change string
  | Submit
  | Remove string
  | Tick
  | Settle nat response nat

fun step :: "event \<Rightarrow> monitoring \<Rightarrow> monitoring" where
  "step (Change v) s = dispatch [setInstanceInput v] s"
| "step Submit s = dispatch (addInstance s) s"
| "step (Remove url) s = dispatch (removeInstance url s) s"
| "step Tick s = (case interval s of None \<Rightarrow> s | Some period \<Rightarrow> checkHealth s)"
| "step (Settle i r now) s =
     (if i < length (pending s)
      then checkHealth_resolved now r (s\<lparr>pending := take i (pending s) @ drop (Suc i) (pending s)\<rparr>)
      else s)"

fun run :: "event list \<Rightarrow> monitoring \<Rightarrow> monitoring" where
  "run [] s = s"
| "run (e # es) s = run es (step e s)"

definition initial :: monitoring where
  "initial =
     \<lparr>instances = defaultInstances, instanceInput = [], healthStatuses = Map.empty,
      isChecking = False, lastChecked = None, interval = None, pending = []\<rparr>"

text \<open>The component once mounted: the first render, then the effect.\<close>

definition mounted :: monitoring where
  "mounted = useEffect initial"

section \<open>The specification's words\<close>

text \<open>
  Canonicalization as the specification words it, on the string it is given: the scheme
  defaults to \<open>https://\<close> when the string has neither \<open>http://\<close> nor \<open>https://\<close> in
  front, and exactly one trailing slash is stripped.
\<close>

definition with_scheme :: "string \<Rightarrow> string" where
  "with_scheme u =
     (if prefix ''http://'' u \<or> prefix ''https://'' u then u else ''https://'' @ u)"

definition without_slash :: "string \<Rightarrow> string" where
  "without_slash v =
     (case rev v of [] \<Rightarrow> v | c # r \<Rightarrow> if c = CHR ''/'' then rev r else v)"

definition canonical_spec :: "string \<Rightarrow> string" where
  "canonical_spec u = without_slash (with_scheme u)"

text \<open>
  The profile fetch fails: a transport error, a non-success status or a body that cannot
  be decoded.
\<close>

fun profile_fetch_failed :: "response \<Rightarrow> bool" where
  "profile_fetch_failed Rejected = True"
| "profile_fetch_failed (Response status body) = (\<not> ok status \<or> body = None)"

text \<open>
  A health-check cycle fails as a whole: the request is rejected, its status is not a
  success, or something throws before the status map is stored (the body cannot be
  decoded, is not an array, or the loop over it throws).
\<close>

fun cycle_failed :: "response \<Rightarrow> bool" where
  "cycle_failed Rejected = True"
| "cycle_failed (Response status None) = True"
| "cycle_failed (Response status (Some (JArr xs))) =
     (\<not> ok status \<or> isl (forEach_status xs Map.empty))"
| "cycle_failed (Response status (Some data)) = True"



section \<open>Example inputs\<close>

definition self_animal :: json where
  "self_animal = JObj [(''id'', JStr ''self-123''), (''name'', JStr ''Self'')]"

definition peer_animal :: json where
  "peer_animal = JObj [(''id'', JStr ''peer-456''), (''name'', JStr ''Peer'')]"

definition app0 :: app where
  "app0 =
     \<lparr>animal = self_animal, friends = [], friendUrl = ''peer.example.com:8443/'',
      addingFriend = False, friendError = None, friendSuccess = None\<rparr>"

text \<open>
  A network in which every instance answers \<open>/api/me\<close> with the given profile, and the
  backend accepts every candidate.
\<close>

fun net_of :: "json \<Rightarrow> request \<Rightarrow> response" where
  "net_of profile (GET u) = Response 200 (Some profile)"
| "net_of profile (POST_friends c) =
     Response 200 (Some (JObj [(''dns_name'', JStr (dns_name c))]))"
| "net_of profile (POST_health_check urls) = Rejected"

definition hostname0 :: "string \<Rightarrow> string option" where
  "hostname0 u =
     (if u = ''https://peer.example.com:8443'' then Some ''peer.example.com'' else None)"

definition viscon :: string where
  "viscon = ''https://viscon.monomorphic.party''"

definition workshop0 :: string where
  "workshop0 = ''https://dj-viscon-workshop-0.vsos.ethz.ch''"

definition status_up :: json where
  "status_up = JObj [(''instance_url'', JStr viscon), (''is_alive'', JBool True)]"

definition status_down :: json where
  "status_down = JObj [(''instance_url'', JStr workshop0), (''is_alive'', JBool False)]"

text \<open>The mounted component after its first check has been answered, at time 1000.\<close>

definition checked_once :: monitoring where
  "checked_once =
     step (Settle 0 (Response 200 (Some (JArr [status_up, status_down]))) 1000) mounted"

section \<open>Invariant of the session\<close>

text \<open>The interval timer exists exactly while the list of instances is not empty.\<close>

definition timer_follows_instances :: "monitoring \<Rightarrow> bool" where
  "timer_follows_instances s \<longleftrightarrow>
     interval s = (if instances s = [] then None else Some 5000)"

section \<open>Facts about the model\<close>

subsection \<open>Strings and values\<close>

lemma startsWith_prefix: "startsWith s p \<longleftrightarrow> prefix p s"
  unfolding startsWith_def by (metis append_eq_conv_conj prefix_def take_is_prefix)

lemma strip_trailing_slash_eq: "strip_trailing_slash v = without_slash v"
  by (cases v rule: rev_cases) (simp_all add: strip_trailing_slash_def without_slash_def)

lemma strict_eq_refl:
  assumes "is_scalar v"
  shows "strict_eq v v"
proof (cases v)
  case Undefined
  then show ?thesis by simp
next
  case (Val j)
  with assms show ?thesis by (cases j) simp_all
qed

subsection \<open>The profile fetch\<close>

lemma fetch_failed_iff:
  "profile_fetch_failed (net (GET (friendMeUrl url)))
     \<longleftrightarrow> (\<exists>e. fetch_friend_profile net url = Inl e)"
  by (cases "net (GET (friendMeUrl url))")
    (auto simp: fetch_friend_profile_def split: option.splits)

lemma fetch_ok_iff:
  "fetch_friend_profile net url = Inr friendData
     \<longleftrightarrow> (\<exists>status. net (GET (friendMeUrl url)) = Response status (Some friendData) \<and> ok status)"
  by (cases "net (GET (friendMeUrl url))")
    (auto simp: fetch_friend_profile_def split: option.splits)

lemma snd_addFriend: "snd (addFriend net hostname s) = fst (addFriend_try net hostname s)"
  by (simp add: addFriend_def Let_def split: prod.splits)

lemmas url_defs = friendMeUrl_def friendInstanceUrl_def trim_def js_whitespace_def
  startsWith_def strip_trailing_slash_def

lemmas example_defs = app0_def self_animal_def peer_animal_def hostname0_def ok_def

lemma friendMeUrl_app0: "friendMeUrl (friendUrl app0) = ''https://peer.example.com:8443/api/me''"
  by (simp add: app0_def url_defs)

subsection \<open>The URL parser on a plain domain\<close>


















subsection \<open>The candidate and the registry\<close>






lemma served_simps:
  "served net malformed now registry (GET u) = net (GET u)"
  "served net malformed now registry (POST_friends c) =
     fst (post_friends_endpoint malformed now c registry)"
  by (simp_all add: served_def)

lemma fetch_served:
  "fetch_friend_profile (served net malformed now registry) url = fetch_friend_profile net url"
  by (simp add: fetch_friend_profile_def served_simps)




subsection \<open>The example peer\<close>







subsection \<open>What a step does to the session\<close>

lemma instances_checkHealth [simp]: "instances (checkHealth s) = instances s"
  by (simp add: checkHealth_def)

lemma interval_checkHealth [simp]: "interval (checkHealth s) = interval s"
  by (simp add: checkHealth_def)

lemma instances_resolved [simp]: "instances (checkHealth_resolved now r s) = instances s"
  by (simp add: checkHealth_resolved_def Let_def split: sum.splits option.splits)

lemma interval_resolved [simp]: "interval (checkHealth_resolved now r s) = interval s"
  by (simp add: checkHealth_resolved_def Let_def split: sum.splits option.splits)

lemma pending_resolved [simp]: "pending (checkHealth_resolved now r s) = pending s"
  by (simp add: checkHealth_resolved_def Let_def split: sum.splits option.splits)

lemma instances_step:
  "instances (step (Change v) s) = instances s"
  "instances (step Submit s) =
     (if trim (instanceInput s) = [] \<or> trim (instanceInput s) \<in> set (instances s)
      then instances s else instances s @ [trim (instanceInput s)])"
  "instances (step (Remove url) s) = filter (\<lambda>instance. instance \<noteq> url) (instances s)"
  "instances (step Tick s) = instances s"
  "instances (step (Settle i r now) s) = instances s"
  by (simp_all add: dispatch_def addInstance_def removeInstance_def clearInterval_def
      useEffect_def Let_def split: option.splits)

lemma step_Change: "step (Change v) s = s\<lparr>instanceInput := v\<rparr>"
  by (simp add: dispatch_def)

lemma step_Submit_fresh:
  assumes "trim (instanceInput s) \<noteq> []" and "trim (instanceInput s) \<notin> set (instances s)"
  shows "step Submit s =
     s\<lparr>instances := instances s @ [trim (instanceInput s)], instanceInput := [],
       isChecking := True,
       pending := pending s @ [POST_health_check (instances s @ [trim (instanceInput s)])],
       interval := Some 5000\<rparr>"
  using assms
  by (simp add: dispatch_def addInstance_def clearInterval_def useEffect_def checkHealth_def
      Let_def)

lemma step_Tick_running:
  assumes "interval s = Some period" and "instances s \<noteq> []"
  shows "step Tick s =
     s\<lparr>isChecking := True, pending := pending s @ [POST_health_check (instances s)]\<rparr>"
  using assms by (simp add: checkHealth_def)

lemma step_Tick_empty:
  assumes "instances s = []"
  shows "step Tick s = s"
  using assms by (simp add: checkHealth_def split: option.splits)

lemma step_Remove:
  "healthStatuses (step (Remove url) s) = (healthStatuses s)(url := None)"
  by (simp add: dispatch_def removeInstance_def clearInterval_def useEffect_def checkHealth_def
      Let_def)

lemma failed_cycle_try:
  assumes "cycle_failed r"
  shows "checkHealth_try r \<noteq> Inr (Some statusMap)"
  using assms
  by (cases r rule: cycle_failed.cases) (auto simp: checkHealth_try_def split: sum.splits)

lemma step_distinct: "distinct (instances s) \<Longrightarrow> distinct (instances (step e s))"
  by (cases e) (simp_all only: instances_step, simp_all)

lemma run_distinct: "distinct (instances s) \<Longrightarrow> distinct (instances (run es s))"
  by (induction es arbitrary: s) (simp_all add: step_distinct)

lemma instances_run_Remove:
  "instances (run (map Remove urls) s) =
     filter (\<lambda>instance. instance \<notin> set urls) (instances s)"
proof (induction urls arbitrary: s)
  case Nil
  then show ?case by simp
next
  case (Cons url urls)
  have "instances (run (map Remove (url # urls)) s) =
      instances (run (map Remove urls) (step (Remove url) s))"
    by simp
  also have "\<dots> = filter (\<lambda>instance. instance \<notin> set urls) (instances (step (Remove url) s))"
    by (rule Cons.IH)
  also have "\<dots> = filter (\<lambda>instance. instance \<notin> set (url # urls)) (instances s)"
    by (simp only: instances_step filter_filter) (rule filter_cong, auto)
  finally show ?case .
qed

lemma step_timer: "timer_follows_instances s \<Longrightarrow> timer_follows_instances (step e s)"
  by (cases e)
    (auto simp: timer_follows_instances_def dispatch_def addInstance_def removeInstance_def
      clearInterval_def useEffect_def Let_def split: option.splits)

lemma run_timer: "timer_follows_instances s \<Longrightarrow> timer_follows_instances (run es s)"
  by (induction es arbitrary: s) (simp_all add: step_timer)

subsection \<open>The mounted component and the examples\<close>

lemma defaultInstances_not_empty: "defaultInstances \<noteq> []"
  by (simp add: defaultInstances_def)

lemma distinct_defaultInstances: "distinct defaultInstances"
  by (simp add: defaultInstances_def)

lemma mounted_eq:
  "mounted =
     initial\<lparr>isChecking := True, pending := [POST_health_check defaultInstances],
       interval := Some 5000\<rparr>"
  using defaultInstances_not_empty
  by (simp add: mounted_def useEffect_def checkHealth_def initial_def)

lemma mounted_simps:
  "instances mounted = defaultInstances"
  "instanceInput mounted = []"
  "interval mounted = Some 5000"
  "pending mounted = [POST_health_check defaultInstances]"
  "healthStatuses mounted = Map.empty"
  "lastChecked mounted = None"
  by (simp_all add: mounted_eq initial_def)

lemma mounted_timer: "timer_follows_instances mounted"
  by (simp add: timer_follows_instances_def mounted_simps defaultInstances_not_empty)

lemma trim_examples:
  "trim ''https://new.example'' = ''https://new.example''"
  "trim ''http://x'' = ''http://x''"
  "trim '' http://x '' = ''http://x''"
  "trim ''https://x/'' = ''https://x/''"
  by (simp_all add: trim_def js_whitespace_def)

lemma fresh_examples:
  "''https://new.example'' \<notin> set defaultInstances"
  "''http://x'' \<notin> set defaultInstances"
  "''https://x/'' \<notin> set defaultInstances"
  by (simp_all add: defaultInstances_def)

lemma viscon_workshop0: "viscon \<noteq> workshop0" "viscon \<in> set defaultInstances"
  by (simp_all add: viscon_def workshop0_def defaultInstances_def)

lemma not_proto: "viscon \<noteq> ''__proto__''" "workshop0 \<noteq> ''__proto__''"
  by (simp_all add: viscon_def workshop0_def)

lemma checked_once_eq:
  "checked_once =
     mounted\<lparr>pending := [], healthStatuses := [viscon \<mapsto> status_up, workshop0 \<mapsto> status_down],
       lastChecked := Some 1000, isChecking := False\<rparr>"
  by (simp add: checked_once_def mounted_simps checkHealth_resolved_def checkHealth_try_def
      forEach_status_def assign_member_def ok_def status_up_def status_down_def not_proto
      viscon_workshop0)

lemma checked_once_simps:
  "instances checked_once = defaultInstances"
  "interval checked_once = Some 5000"
  "pending checked_once = []"
  "healthStatuses checked_once = [viscon \<mapsto> status_up, workshop0 \<mapsto> status_down]"
  "lastChecked checked_once = Some 1000"
  by (simp_all add: checked_once_eq mounted_simps)

section \<open>Friend linking\<close>

text \<open>
  C1. In \<open>addFriend\<close> the add request to the friend registry is issued only after the
  peer's profile has been fetched from \<open>canonical/api/me\<close> and decoded. Whenever that
  fetch fails (a transport error, a non-success status or an undecodable body), the
  profile request is the only request issued, the handler ends with an error, no
  success is reported and the list of friends is as before; and an add request, when
  there is one, follows a profile request that was answered with success and decoded.
\<close>

theorem addFriend_fetch_before_add:
  "(profile_fetch_failed (net (GET (friendMeUrl (friendUrl s)))) \<longrightarrow>
      snd (addFriend net hostname s) = [GET (friendMeUrl (friendUrl s))]
      \<and> (\<exists>e. friendError (fst (addFriend net hostname s)) = Some e)
      \<and> friendSuccess (fst (addFriend net hostname s)) = None
      \<and> friends (fst (addFriend net hostname s)) = friends s)
   \<and> (\<forall>c. POST_friends c \<in> set (snd (addFriend net hostname s)) \<longrightarrow>
        snd (addFriend net hostname s) = [GET (friendMeUrl (friendUrl s)), POST_friends c]
        \<and> (\<exists>status friendData.
              net (GET (friendMeUrl (friendUrl s))) = Response status (Some friendData)
              \<and> ok status))"
proof (cases "fetch_friend_profile net (friendUrl s)")
  case (Inl e)
  then show ?thesis
    by (simp add: addFriend_def addFriend_try_def)
next
  case (Inr friendData)
  then have "\<not> profile_fetch_failed (net (GET (friendMeUrl (friendUrl s))))"
    by (simp add: fetch_failed_iff)
  moreover from Inr
  have "\<exists>status. net (GET (friendMeUrl (friendUrl s))) = Response status (Some friendData)
      \<and> ok status"
    by (simp add: fetch_ok_iff)
  ultimately show ?thesis
    using Inr by (auto simp: snd_addFriend addFriend_try_def split: sum.splits)
qed

theorem addFriend_fetch_before_add_witness:
  "profile_fetch_failed (Response 404 None)
   \<and> snd (addFriend (\<lambda>q. Response 404 None) hostname0 app0)
       = [GET ''https://peer.example.com:8443/api/me'']
   \<and> friendError (fst (addFriend (\<lambda>q. Response 404 None) hostname0 app0))
       = Some (FetchProfileFailed ''https://peer.example.com:8443/api/me'' 404)
   \<and> friends (fst (addFriend (\<lambda>q. Response 404 None) hostname0 app0)) = []
   \<and> snd (addFriend (net_of peer_animal) hostname0 app0)
       = [GET ''https://peer.example.com:8443/api/me'',
          POST_friends \<lparr>unique_id = Val (JStr ''peer-456''), dns_name = ''peer.example.com'',
                        name = Val (JStr ''Peer'')\<rparr>]"
  using addFriend_fetch_before_add [of "\<lambda>q. Response 404 None" app0 hostname0]
    addFriend_fetch_before_add [of "net_of peer_animal" app0 hostname0]
  by (simp add: friendMeUrl_app0 addFriend_def addFriend_try_def fetch_friend_profile_def
      friend_candidate_def post_friend_def example_defs url_defs)

text \<open>
  C2. Whenever the fetched profile has an id equal to the caller's own id
  (\<open>animal.id\<close>; an id is a scalar, as the data model has it), \<open>addFriend\<close> ends with the
  self-link error; the check comes before the add request, so the profile request is
  the only request issued and no friend is added.
\<close>

theorem addFriend_rejects_self:
  assumes "net (GET (friendMeUrl (friendUrl s))) = Response status (Some friendData)"
    and "ok status"
    and "get_prop friendData ''id'' = Inr v"
    and "get_prop (animal s) ''id'' = Inr v"
    and "is_scalar v"
  shows "friendError (fst (addFriend net hostname s)) = Some SelfFriend
       \<and> snd (addFriend net hostname s) = [GET (friendMeUrl (friendUrl s))]
       \<and> friends (fst (addFriend net hostname s)) = friends s"
  using assms
  by (simp add: addFriend_def addFriend_try_def fetch_friend_profile_def friend_candidate_def
      strict_eq_refl)

theorem addFriend_rejects_self_witness:
  "friendError (fst (addFriend (net_of self_animal) hostname0 app0)) = Some SelfFriend
   \<and> snd (addFriend (net_of self_animal) hostname0 app0)
       = [GET ''https://peer.example.com:8443/api/me'']
   \<and> friends (fst (addFriend (net_of self_animal) hostname0 app0)) = []"
  using addFriend_rejects_self
    [of "net_of self_animal" app0 200 self_animal "Val (JStr ''self-123'')" hostname0]
  by (simp add: friendMeUrl_app0) (simp add: example_defs)

text \<open>
  C3, as the code has it. Canonicalization first trims white space from both ends of the
  input. The trimmed string, when it has neither \<open>http://\<close> nor \<open>https://\<close> in front, is
  prefixed with \<open>https://\<close>, and exactly one trailing slash is stripped if present. So
  \<open>friend.example.com\<close> and \<open>https://friend.example.com/\<close> both give
  \<open>https://friend.example.com\<close>, and the first request of \<open>addFriend\<close> always goes to
  the canonical URL followed by \<open>/api/me\<close>.
\<close>

theorem friendInstanceUrl_trimmed_canonical:
  "friendInstanceUrl url = canonical_spec (trim url)
   \<and> friendInstanceUrl ''friend.example.com'' = ''https://friend.example.com''
   \<and> friendInstanceUrl ''https://friend.example.com/'' = ''https://friend.example.com''
   \<and> hd (snd (addFriend net hostname s)) = GET (friendInstanceUrl (friendUrl s) @ ''/api/me'')"
proof -
  have "friendInstanceUrl url = canonical_spec (trim url)"
    by (simp add: friendInstanceUrl_def canonical_spec_def with_scheme_def startsWith_prefix
        strip_trailing_slash_eq Let_def)
  moreover have "friendInstanceUrl ''friend.example.com'' = ''https://friend.example.com''"
    by (simp add: url_defs)
  moreover have "friendInstanceUrl ''https://friend.example.com/'' = ''https://friend.example.com''"
    by (simp add: url_defs)
  moreover have "hd (snd (addFriend net hostname s))
      = GET (friendInstanceUrl (friendUrl s) @ ''/api/me'')"
    by (simp add: snd_addFriend addFriend_try_def friendMeUrl_def split: sum.splits)
  ultimately show ?thesis by simp
qed

text \<open>
  C3, as it is stated, fails on an input with white space around it: the input
  \<open>" friend.example.com"\<close> has no scheme in front, and the code does not map it to the
  same string prefixed with \<open>https://\<close>, but to the trimmed string prefixed.
\<close>

theorem friendInstanceUrl_untrimmed_counterexample:
  "friendInstanceUrl '' friend.example.com'' = ''https://friend.example.com''
   \<and> canonical_spec '' friend.example.com'' = ''https:// friend.example.com''"
  by (simp add: url_defs canonical_spec_def with_scheme_def without_slash_def)



section \<open>Monitoring\<close>

text \<open>
  C4, as the code has it. Nothing limits the health-check cycles in flight: whenever the
  interval fires, a new cycle is started and its request is sent, whatever the number of
  earlier requests still unanswered. (\<open>isChecking\<close> is only displayed.)
\<close>

theorem tick_starts_overlapping_cycle:
  assumes "interval s = Some period" and "instances s \<noteq> []"
  shows "pending (step Tick s) = pending s @ [POST_health_check (instances s)]
       \<and> length (pending (step Tick s)) = Suc (length (pending s))"
  using assms by (simp add: step_Tick_running del: step.simps)

theorem tick_starts_overlapping_cycle_witness:
  "interval mounted = Some 5000 \<and> instances mounted \<noteq> []
   \<and> pending mounted = [POST_health_check defaultInstances]
   \<and> pending (step Tick mounted)
       = [POST_health_check defaultInstances, POST_health_check defaultInstances]"
  using tick_starts_overlapping_cycle [of mounted 5000]
  by (simp add: mounted_simps defaultInstances_not_empty del: step.simps)

text \<open>
  C4, as it is stated, fails: when the interval fires for the first time and the check
  made on mount is still unanswered, two cycles are in flight.
\<close>

theorem two_cycles_in_flight_counterexample:
  "length (pending (run [Tick] mounted)) = 2"
  by (simp add: step_Tick_running [where period = 5000] mounted_simps
      defaultInstances_not_empty del: step.simps)

text \<open>
  C5, as the code has it. In every state of a mounted component the interval timer, of
  5000 milliseconds, exists exactly while the list of instances is not empty: the effect
  clears it whenever the list changes and sets a new one up only for a list that is not
  empty. While the list is not empty, every firing starts a health-check cycle; while it
  is empty there is no timer, and nothing is checked.
\<close>

theorem timer_follows_instance_list:
  "interval (run es mounted) = (if instances (run es mounted) = [] then None else Some 5000)
   \<and> (instances (run es mounted) \<noteq> [] \<longrightarrow>
        pending (step Tick (run es mounted))
          = pending (run es mounted) @ [POST_health_check (instances (run es mounted))])
   \<and> (instances (run es mounted) = [] \<longrightarrow> step Tick (run es mounted) = run es mounted)"
proof -
  have timer: "interval (run es mounted)
      = (if instances (run es mounted) = [] then None else Some 5000)"
    using run_timer [OF mounted_timer, of es] by (simp add: timer_follows_instances_def)
  then show ?thesis
    by (simp add: step_Tick_running step_Tick_empty del: step.simps)
qed

theorem timer_follows_instance_list_witness:
  "interval (run [] mounted) = Some 5000
   \<and> pending (step Tick (run [] mounted))
       = [POST_health_check defaultInstances, POST_health_check defaultInstances]
   \<and> instances (run (map Remove defaultInstances) mounted) = []
   \<and> step Tick (run (map Remove defaultInstances) mounted)
       = run (map Remove defaultInstances) mounted"
  using timer_follows_instance_list [of "[]"]
    timer_follows_instance_list [of "map Remove defaultInstances"]
  by (simp add: instances_run_Remove mounted_simps defaultInstances_not_empty del: step.simps)

text \<open>
  C5, as it is stated, fails: once every instance has been removed, the list is empty and
  the timer is gone.
\<close>

theorem timer_cleared_when_empty_counterexample:
  "interval mounted = Some 5000
   \<and> instances (run (map Remove defaultInstances) mounted) = []
   \<and> interval (run (map Remove defaultInstances) mounted) = None"
proof -
  have "instances (run (map Remove defaultInstances) mounted) = []"
    by (simp add: instances_run_Remove mounted_simps)
  moreover have "timer_follows_instances (run (map Remove defaultInstances) mounted)"
    by (rule run_timer [OF mounted_timer])
  ultimately show ?thesis
    by (simp add: timer_follows_instances_def mounted_simps)
qed

text \<open>
  C6, as the code has it. Adding a URL that is accepted runs the effect again: a health
  check of the whole new list, the added URL included, is sent at once, and a new
  interval is set up.
\<close>

theorem addInstance_probes_at_once:
  assumes "trim (instanceInput s) \<noteq> []" and "trim (instanceInput s) \<notin> set (instances s)"
  shows "instances (step Submit s) = instances s @ [trim (instanceInput s)]
       \<and> pending (step Submit s)
           = pending s @ [POST_health_check (instances s @ [trim (instanceInput s)])]
       \<and> interval (step Submit s) = Some 5000"
  using assms by (simp add: step_Submit_fresh del: step.simps)

theorem addInstance_probes_at_once_witness:
  "trim (instanceInput (step (Change ''https://new.example'') checked_once)) = ''https://new.example''
   \<and> pending (step (Change ''https://new.example'') checked_once) = []
   \<and> pending (step Submit (step (Change ''https://new.example'') checked_once))
       = [POST_health_check (defaultInstances @ [''https://new.example''])]
   \<and> interval (step Submit (step (Change ''https://new.example'') checked_once)) = Some 5000"
  using addInstance_probes_at_once [of "step (Change ''https://new.example'') checked_once"]
  by (simp add: step_Change trim_examples fresh_examples checked_once_simps del: step.simps)

text \<open>
  C6, as it is stated, fails: submitting a new URL adds, in that very step, a request
  for the list with the new URL to the requests in flight.
\<close>

theorem addInstance_immediate_probe_counterexample:
  "pending (step Submit (step (Change ''https://new.example'') mounted))
     = pending (step (Change ''https://new.example'') mounted)
       @ [POST_health_check (defaultInstances @ [''https://new.example''])]"
  by (simp add: step_Change step_Submit_fresh trim_examples fresh_examples mounted_simps
      del: step.simps)

text \<open>
  C7. Removing a URL takes it out of the list of instances and deletes its entry from
  the status map in the same step; the entry of every other URL is as before.
\<close>

theorem removeInstance_frame:
  "instances (step (Remove url) s) = filter (\<lambda>instance. instance \<noteq> url) (instances s)
   \<and> url \<notin> set (instances (step (Remove url) s))
   \<and> healthStatuses (step (Remove url) s) url = None
   \<and> (\<forall>u. u \<noteq> url \<longrightarrow> healthStatuses (step (Remove url) s) u = healthStatuses s u)"
  by (simp add: instances_step step_Remove del: step.simps)

theorem removeInstance_frame_witness:
  "viscon \<in> set (instances checked_once)
   \<and> healthStatuses checked_once viscon = Some status_up
   \<and> viscon \<notin> set (instances (step (Remove viscon) checked_once))
   \<and> healthStatuses (step (Remove viscon) checked_once) viscon = None
   \<and> healthStatuses (step (Remove viscon) checked_once) workshop0 = Some status_down"
proof -
  note frame = removeInstance_frame [of viscon checked_once]
  from frame have "workshop0 \<noteq> viscon \<longrightarrow>
      healthStatuses (step (Remove viscon) checked_once) workshop0
        = healthStatuses checked_once workshop0"
    by blast
  with frame viscon_workshop0 show ?thesis
    by (simp add: checked_once_simps del: step.simps)
qed

text \<open>
  C8. The list of instances never holds a URL twice: it is so once mounted and after
  every sequence of events, since every step keeps it so. A submitted URL whose trimmed
  form is in the list already leaves the list as it is; the comparison is plain
  equality of strings, nothing is canonicalized.
\<close>

theorem instances_distinct:
  "distinct (instances (run es mounted))
   \<and> (distinct (instances s) \<longrightarrow> distinct (instances (step e s)))
   \<and> (trim (instanceInput s) \<in> set (instances s) \<longrightarrow> instances (step Submit s) = instances s)"
  using instances_step(2) [of s]
  by (simp add: run_distinct mounted_simps distinct_defaultInstances step_distinct
      del: step.simps)

theorem instances_distinct_witness:
  "instances (run [Change ''http://x'', Submit, Change '' http://x '', Submit,
       Change ''https://x/'', Submit] mounted) = defaultInstances @ [''http://x'', ''https://x/'']
   \<and> distinct (defaultInstances @ [''http://x'', ''https://x/''])"
  using instances_distinct [of "[Change ''http://x'', Submit, Change '' http://x '', Submit,
       Change ''https://x/'', Submit]" mounted Submit]
  by (simp add: instances_step step_Change trim_examples fresh_examples mounted_simps
      del: step.simps)

text \<open>
  C10. When a health-check cycle fails as a whole, its answer leaves the state as it
  was, but for the flag \<open>isChecking\<close>, which is reset, and the request, which is no
  longer in flight: the status map and the time of the last check keep their values.
\<close>

theorem failed_cycle_keeps_state:
  assumes "cycle_failed r" and "i < length (pending s)"
  shows "step (Settle i r now) s
       = s\<lparr>pending := take i (pending s) @ drop (Suc i) (pending s), isChecking := False\<rparr>"
  using assms failed_cycle_try [of r]
  by (auto simp: checkHealth_resolved_def Let_def split: sum.splits option.splits)

theorem failed_cycle_keeps_state_witness:
  "cycle_failed (Response 503 None)
   \<and> pending (step Tick checked_once) = [POST_health_check defaultInstances]
   \<and> healthStatuses (step (Settle 0 (Response 503 None) 2000) (step Tick checked_once)) viscon
       = Some status_up
   \<and> lastChecked (step (Settle 0 (Response 503 None) 2000) (step Tick checked_once)) = Some 1000
   \<and> isChecking (step (Settle 0 (Response 503 None) 2000) (step Tick checked_once)) = False"
  using failed_cycle_keeps_state [of "Response 503 None" 0 "step Tick checked_once" 2000]
  by (simp add: step_Tick_running [where period = 5000] checked_once_simps
      defaultInstances_not_empty viscon_workshop0 del: step.simps)

end
